theory Spec2Isabelle
  imports Complex_Main
begin

section \<open>Values of the host language\<close>

text \<open>
  A JavaScript number is modelled by the rational it denotes, or one of the three
  non-finite values. \<open>+0\<close> and \<open>-0\<close> are both \<open>Fin 0\<close>: they are equal under
  \<open>===\<close> and both falsy, which is all the queue looks at.
\<close>

datatype jsnum = Fin rat | NaN | PosInf | NegInf

text \<open>\<open>string | number\<close>, the type of a process id.\<close>

datatype pid = StrId string | NumId jsnum

text \<open>ToBoolean on a number: \<open>0\<close> and \<open>NaN\<close> are falsy.\<close>

definition truthy_num :: "jsnum \<Rightarrow> bool" where
  "truthy_num x = (x \<noteq> Fin 0 \<and> x \<noteq> NaN)"

text \<open>ToBoolean on \<open>string | number\<close>: the empty string is falsy as well.\<close>

fun truthy :: "pid \<Rightarrow> bool" where
  "truthy (StrId s) = (s \<noteq> [])"
| "truthy (NumId n) = truthy_num n"

text \<open>Strict equality \<open>===\<close> on numbers: \<open>NaN\<close> equals nothing, itself included.\<close>

definition strict_eq_num :: "jsnum \<Rightarrow> jsnum \<Rightarrow> bool" where
  "strict_eq_num a b = (a = b \<and> a \<noteq> NaN)"

text \<open>Strict equality on \<open>string | number\<close>: values of different types are unequal.\<close>

fun strict_eq :: "pid \<Rightarrow> pid \<Rightarrow> bool" where
  "strict_eq (StrId a) (StrId b) = (a = b)"
| "strict_eq (NumId a) (NumId b) = strict_eq_num a b"
| "strict_eq (StrId a) (NumId b) = False"
| "strict_eq (NumId a) (StrId b) = False"

text \<open>
  Strict equality of a \<open>string | number | null\<close> with a \<open>string | number\<close>:
  \<open>null\<close> (\<open>None\<close>) equals no id.
\<close>

fun strict_eq_null :: "pid option \<Rightarrow> pid \<Rightarrow> bool" where
  "strict_eq_null None b = False"
| "strict_eq_null (Some a) b = strict_eq a b"

text \<open>\<open>x || null\<close> on an id.\<close>

definition or_null :: "pid \<Rightarrow> pid option" where
  "or_null x = (if truthy x then Some x else None)"

text \<open>
  A callable is a nullary function returning a promise. It is represented by what
  becomes of that promise: fulfilled with a value, rejected with a reason (a callable
  that throws when called is a rejection of the awaiting worker too), or never settled.
  Up to the section on callables and listeners that act on the queue, callables are
  taken not to call back into the queue while they are being called.
\<close>

datatype 'v promise = Fulfils 'v | Rejects 'v | Never

section \<open>Enums and types (enum.ts, type.ts)\<close>

datatype ProcessState = UNDER_EXECUTION | IDLE

text \<open>The numeric enum \<open>Priority\<close>: \<open>HIGH = 1\<close>, \<open>LOW = 0\<close>.\<close>

definition HIGH :: jsnum where
  "HIGH = Fin 1"

definition LOW :: jsnum where
  "LOW = Fin 0"

text \<open>
  A queued process. \<open>ProcessId\<close> is optional in the type, but the only place that builds
  a record, \<open>mqPush\<close>, always stores a \<open>string | number\<close> there.
\<close>

record 'v Process =
  CallableFunction :: "'v promise"
  ProcessId :: pid

record PushPopReturnType =
  ProcessId :: pid
  QueueLength :: nat

record 'v Result =
  "value" :: 'v
  processId :: pid
  queueLength :: nat

text \<open>An absent (or \<open>undefined\<close>) field of the options is \<open>None\<close>.\<close>

record Options =
  Priority :: "jsnum option"
  ProcessId :: "pid option"

text \<open>
  The errors. The source throws plain \<open>Error\<close> objects told apart by their message:
  "Priority must be HIGH(1) or LOW(0)" is \<open>ValidationError\<close>, "Queue is empty: ..." is
  \<open>EmptyQueueError\<close>, "Process already under execution: ..." is \<open>ActiveTaskError\<close>.
  \<open>NotFoundError\<close> is the name the specification uses; no statement of the source
  throws it. \<open>TypeError\<close> is what reading \<open>.ProcessId\<close> of \<open>undefined\<close> raises.
\<close>

datatype error = ValidationError | EmptyQueueError | ActiveTaskError | NotFoundError | TypeError

section \<open>The queue object (Queue.ts)\<close>

text \<open>
  The four fields of the class, and two fields that stand for the runtime around it:
  \<open>awaiting\<close> holds the local \<open>ele\<close> of every invocation of \<open>#Worker\<close> that is suspended
  at its \<open>await\<close>, and \<open>emitted\<close> the results passed to \<open>emit('getResult', _)\<close>, oldest first.
  Up to the same section, listeners are taken not to call back into the queue and not
  to throw.
\<close>

record 'v Queue_state =
  Queue :: "'v Process list"
  isProcessStartFlag :: bool
  ProcessState :: ProcessState
  CurrentProcessId :: "pid option"
  awaiting :: "'v Process list"
  emitted :: "'v Result list"

text \<open>\<open>new Queue()\<close>.\<close>

definition new_Queue :: "'v Queue_state" where
  "new_Queue = \<lparr>Queue = [], isProcessStartFlag = False, ProcessState = IDLE,
     CurrentProcessId = None, awaiting = [], emitted = []\<rparr>"

text \<open>
  \<open>#Worker\<close> up to its \<open>await\<close>: the guard, the two assignments, the \<open>shift\<close> and the call
  of the callable. This part runs inside the caller, without interruption.
\<close>

definition Worker :: "'v Queue_state \<Rightarrow> 'v Queue_state" where
  "Worker s =
     (if \<not> isProcessStartFlag s \<or> length (Queue s) = 0 \<or> ProcessState s = UNDER_EXECUTION
      then s
      else (case Queue s of
              [] \<Rightarrow> s
            | ele # rest \<Rightarrow>
                s\<lparr>ProcessState := UNDER_EXECUTION,
                  CurrentProcessId := or_null (Process.ProcessId ele),
                  Queue := rest,
                  awaiting := awaiting s @ [ele]\<rparr>))"

text \<open>
  \<open>#Worker\<close> after its \<open>await\<close>, for the suspended invocation holding \<open>ele\<close>. A fulfilled
  promise resumes it: the result is built and emitted, the state goes back to \<open>IDLE\<close>
  and \<open>#Worker\<close> is called again. A rejected promise makes the \<open>await\<close> throw, which ends
  the invocation at once. A promise that never settles never resumes it.
\<close>

definition Worker_resume :: "'v Process \<Rightarrow> 'v Queue_state \<Rightarrow> 'v Queue_state" where
  "Worker_resume ele s =
     (case CallableFunction ele of
        Fulfils res \<Rightarrow>
          (let result = \<lparr>value = res, processId = Process.ProcessId ele,
                          queueLength = length (Queue s)\<rparr>;
               s1 = s\<lparr>awaiting := remove1 ele (awaiting s), emitted := emitted s @ [result]\<rparr>;
               s2 = s1\<lparr>ProcessState := IDLE\<rparr>
           in Worker s2)
      | Rejects e \<Rightarrow> s\<lparr>awaiting := remove1 ele (awaiting s)\<rparr>
      | Never \<Rightarrow> s)"

text \<open>\<open>Options?.Priority\<close> and \<open>Options?.ProcessId\<close> of the optional second argument.\<close>

definition opt_Priority :: "Options option \<Rightarrow> jsnum option" where
  "opt_Priority Options = (case Options of None \<Rightarrow> None | Some opts \<Rightarrow> Priority opts)"

definition opt_ProcessId :: "Options option \<Rightarrow> pid option" where
  "opt_ProcessId Options = (case Options of None \<Rightarrow> None | Some opts \<Rightarrow> Options.ProcessId opts)"

text \<open>
  The guard of the \<open>throw\<close> in \<open>mqPush\<close>:
  \<open>Options?.Priority && Options?.Priority !== 0 && Options?.Priority !== 1\<close>.
\<close>

definition priority_rejected :: "Options option \<Rightarrow> bool" where
  "priority_rejected Options =
     (case opt_Priority Options of
        None \<Rightarrow> False
      | Some p \<Rightarrow> truthy_num p \<and> \<not> strict_eq_num p (Fin 0) \<and> \<not> strict_eq_num p (Fin 1))"

text \<open>\<open>Options?.Priority === Priority.HIGH\<close>.\<close>

definition priority_is_HIGH :: "Options option \<Rightarrow> bool" where
  "priority_is_HIGH Options =
     (case opt_Priority Options of None \<Rightarrow> False | Some p \<Rightarrow> strict_eq_num p HIGH)"

definition mqPush ::
  "'v promise \<Rightarrow> Options option \<Rightarrow> 'v Queue_state \<Rightarrow> (error + PushPopReturnType) \<times> 'v Queue_state"
where
  "mqPush Process Options s =
     (let id = (case opt_ProcessId Options of
                  Some i \<Rightarrow> i
                | None \<Rightarrow> NumId (Fin (of_nat (length (Queue s) + 1))))
      in if priority_rejected Options then (Inl ValidationError, s)
         else
           let s1 = (if priority_is_HIGH Options
                     then s\<lparr>Queue := \<lparr>CallableFunction = Process, Process.ProcessId = id\<rparr> # Queue s\<rparr>
                     else s\<lparr>Queue := Queue s @ [\<lparr>CallableFunction = Process, Process.ProcessId = id\<rparr>]\<rparr>);
               s2 = (if isProcessStartFlag s1 then Worker s1 else s1)
           in (Inr \<lparr>PushPopReturnType.ProcessId = id, QueueLength = length (Queue s2)\<rparr>, s2))"

definition mqPop :: "'v Queue_state \<Rightarrow> (error + PushPopReturnType) \<times> 'v Queue_state" where
  "mqPop s =
     (if length (Queue s) = 0 then (Inl EmptyQueueError, s)
      else if strict_eq_null (CurrentProcessId s) (Process.ProcessId (last (Queue s)))
      then (Inl ActiveTaskError, s)
      else
        let processId = Process.ProcessId (last (Queue s));
            s1 = s\<lparr>Queue := butlast (Queue s)\<rparr>
        in (Inr \<lparr>PushPopReturnType.ProcessId = processId, QueueLength = length (Queue s1)\<rparr>, s1))"

text \<open>\<open>Array.prototype.findIndex\<close>: the first index whose element passes, or \<open>-1\<close>.\<close>

fun findIndex :: "('a \<Rightarrow> bool) \<Rightarrow> 'a list \<Rightarrow> int" where
  "findIndex P [] = -1"
| "findIndex P (x # xs) =
     (if P x then 0 else (let r = findIndex P xs in if r < 0 then -1 else r + 1))"

text \<open>
  \<open>Array.prototype.splice(start, deleteCount)\<close>: a negative \<open>start\<close> counts from the end.
  The result is the array of removed elements and the array that is left.
\<close>

definition splice :: "int \<Rightarrow> nat \<Rightarrow> 'a list \<Rightarrow> 'a list \<times> 'a list" where
  "splice start deleteCount xs =
     (let len = int (length xs);
          actualStart = nat (if start < 0 then max (len + start) 0 else min start len)
      in (take deleteCount (drop actualStart xs),
          take actualStart xs @ drop (actualStart + deleteCount) xs))"

definition mqRemove ::
  "pid \<Rightarrow> 'v Queue_state \<Rightarrow> (error + PushPopReturnType) \<times> 'v Queue_state"
where
  "mqRemove ProcessId' s =
     (if length (Queue s) = 0 then (Inl EmptyQueueError, s)
      else if strict_eq_null (CurrentProcessId s) ProcessId' then (Inl ActiveTaskError, s)
      else
        let (removed, rest) =
              splice (findIndex (\<lambda>i. strict_eq (Process.ProcessId i) ProcessId') (Queue s)) 1 (Queue s);
            s1 = s\<lparr>Queue := rest\<rparr>
        in (case removed of
              [] \<Rightarrow> (Inl TypeError, s1)
            | r # _ \<Rightarrow>
                (Inr \<lparr>PushPopReturnType.ProcessId = Process.ProcessId r, QueueLength = length (Queue s1)\<rparr>, s1)))"

definition mqStart :: "'v Queue_state \<Rightarrow> 'v Queue_state" where
  "mqStart s = Worker (s\<lparr>isProcessStartFlag := True\<rparr>)"

definition mqEnd :: "'v Queue_state \<Rightarrow> 'v Queue_state" where
  "mqEnd s = s\<lparr>isProcessStartFlag := False\<rparr>"

definition getCurrentProcessId :: "'v Queue_state \<Rightarrow> pid option" where
  "getCurrentProcessId s = CurrentProcessId s"

definition getQueueLength :: "'v Queue_state \<Rightarrow> nat" where
  "getQueueLength s = length (Queue s)"

section \<open>Runs of the queue\<close>

text \<open>A caller pushing one process after the other, whatever each call returns.\<close>

fun mqPush_all :: "('v promise \<times> Options option) list \<Rightarrow> 'v Queue_state \<Rightarrow> 'v Queue_state" where
  "mqPush_all [] s = s"
| "mqPush_all ((f, opts) # ps) s = mqPush_all ps (snd (mqPush f opts s))"

text \<open>
  The states a queue can be in: a new queue, then any public method called with any
  arguments, or any suspended invocation of \<open>#Worker\<close> taken up again once its promise
  has settled. The public methods run to their end before anything else does, so each of
  them is one step.
\<close>

inductive reachable :: "'v Queue_state \<Rightarrow> bool" where
  r_new: "reachable new_Queue"
| r_push: "reachable s \<Longrightarrow> reachable (snd (mqPush f opts s))"
| r_pop: "reachable s \<Longrightarrow> reachable (snd (mqPop s))"
| r_remove: "reachable s \<Longrightarrow> reachable (snd (mqRemove i s))"
| r_start: "reachable s \<Longrightarrow> reachable (mqStart s)"
| r_end: "reachable s \<Longrightarrow> reachable (mqEnd s)"
| r_resume: "reachable s \<Longrightarrow> ele \<in> set (awaiting s) \<Longrightarrow> reachable (Worker_resume ele s)"




text \<open>
  Any number of calls of public methods, one after the other, while no suspended
  invocation of \<open>#Worker\<close> is taken up again: what can happen to the queue while a
  callable is executing.
\<close>

inductive calls :: "'v Queue_state \<Rightarrow> 'v Queue_state \<Rightarrow> bool" where
  c_none: "calls s s"
| c_push: "calls s t \<Longrightarrow> calls s (snd (mqPush f opts t))"
| c_pop: "calls s t \<Longrightarrow> calls s (snd (mqPop t))"
| c_remove: "calls s t \<Longrightarrow> calls s (snd (mqRemove i t))"
| c_start: "calls s t \<Longrightarrow> calls s (mqStart t)"
| c_end: "calls s t \<Longrightarrow> calls s (mqEnd t)"

text \<open>
  At most one invocation of \<open>#Worker\<close> is suspended, and only while the state is
  \<open>UNDER_EXECUTION\<close>.
\<close>

definition queue_inv :: "'v Queue_state \<Rightarrow> bool" where
  "queue_inv s = (length (awaiting s) \<le> 1
          \<and> (awaiting s \<noteq> [] \<longrightarrow> ProcessState s = UNDER_EXECUTION))"

section \<open>Callables and listeners that act on the queue\<close>

text \<open>
  \<open>#Worker\<close> calls the callable before it suspends, and \<open>emit\<close> calls the listeners of
  \<open>getResult\<close> before it returns. Either may call public methods of the queue, and
  either may throw. What they do is given from outside:
  \<open>invoke E ele s\<close> is the queue as the callable of \<open>ele\<close>, called in state \<open>s\<close>, leaves
  it when it returns its promise, and whether it threw instead of returning;
  \<open>notify E result s\<close> is the queue as the listeners, called with \<open>result\<close> in state \<open>s\<close>,
  leave it, and whether one of them threw. Both run while the state is
  \<open>UNDER_EXECUTION\<close>, where a public method never gets past the guard of \<open>#Worker\<close>, so
  their calls are those of the definitions above.
\<close>

record 'v env =
  invoke :: "'v Process \<Rightarrow> 'v Queue_state \<Rightarrow> 'v Queue_state \<times> bool"
  notify :: "'v Result \<Rightarrow> 'v Queue_state \<Rightarrow> 'v Queue_state \<times> bool"


text \<open>
  \<open>#Worker\<close> up to its \<open>await\<close>. A callable that throws ends the invocation (its promise
  is rejected) before anything is awaited.
\<close>

definition Worker_env :: "'v env \<Rightarrow> 'v Queue_state \<Rightarrow> 'v Queue_state" where
  "Worker_env E s =
     (if \<not> isProcessStartFlag s \<or> length (Queue s) = 0 \<or> ProcessState s = UNDER_EXECUTION
      then s
      else (case Queue s of
              [] \<Rightarrow> s
            | ele # rest \<Rightarrow>
                (case invoke E ele
                        (s\<lparr>ProcessState := UNDER_EXECUTION,
                           CurrentProcessId := or_null (Process.ProcessId ele),
                           Queue := rest\<rparr>) of
                   (s1, threw) \<Rightarrow>
                     if threw then s1 else s1\<lparr>awaiting := awaiting s1 @ [ele]\<rparr>)))"

text \<open>
  \<open>#Worker\<close> after its \<open>await\<close>. A listener that throws makes \<open>emit\<close> throw, which ends
  the invocation before the state is set back to \<open>IDLE\<close> and before \<open>#Worker\<close> is
  called again.
\<close>

definition Worker_resume_env :: "'v env \<Rightarrow> 'v Process \<Rightarrow> 'v Queue_state \<Rightarrow> 'v Queue_state" where
  "Worker_resume_env E ele s =
     (case CallableFunction ele of
        Fulfils res \<Rightarrow>
          (let result = \<lparr>value = res, processId = Process.ProcessId ele,
                          queueLength = length (Queue s)\<rparr>;
               s1 = s\<lparr>awaiting := remove1 ele (awaiting s), emitted := emitted s @ [result]\<rparr>
           in (case notify E result s1 of
                 (s2, threw) \<Rightarrow>
                   if threw then s2 else Worker_env E (s2\<lparr>ProcessState := IDLE\<rparr>)))
      | Rejects e \<Rightarrow> s\<lparr>awaiting := remove1 ele (awaiting s)\<rparr>
      | Never \<Rightarrow> s)"

definition mqPush_env ::
  "'v env \<Rightarrow> 'v promise \<Rightarrow> Options option \<Rightarrow> 'v Queue_state
     \<Rightarrow> (error + PushPopReturnType) \<times> 'v Queue_state"
where
  "mqPush_env E Process Options s =
     (let id = (case opt_ProcessId Options of
                  Some i \<Rightarrow> i
                | None \<Rightarrow> NumId (Fin (of_nat (length (Queue s) + 1))))
      in if priority_rejected Options then (Inl ValidationError, s)
         else
           let s1 = (if priority_is_HIGH Options
                     then s\<lparr>Queue := \<lparr>CallableFunction = Process, Process.ProcessId = id\<rparr> # Queue s\<rparr>
                     else s\<lparr>Queue := Queue s @ [\<lparr>CallableFunction = Process, Process.ProcessId = id\<rparr>]\<rparr>);
               s2 = (if isProcessStartFlag s1 then Worker_env E s1 else s1)
           in (Inr \<lparr>PushPopReturnType.ProcessId = id, QueueLength = length (Queue s2)\<rparr>, s2))"

definition mqStart_env :: "'v env \<Rightarrow> 'v Queue_state \<Rightarrow> 'v Queue_state" where
  "mqStart_env E s = Worker_env E (s\<lparr>isProcessStartFlag := True\<rparr>)"



text \<open>The environments of the examples below.\<close>

definition no_calls :: "'v env" where
  "no_calls = \<lparr>invoke = (\<lambda>p t. (t, False)), notify = (\<lambda>r t. (t, False))\<rparr>"

definition listener_throws :: "'v env" where
  "listener_throws = \<lparr>invoke = (\<lambda>p t. (t, False)), notify = (\<lambda>r t. (t, True))\<rparr>"

definition listener_pops :: "'v env" where
  "listener_pops = \<lparr>invoke = (\<lambda>p t. (t, False)), notify = (\<lambda>r t. (snd (mqPop t), False))\<rparr>"

definition callable_pops :: "'v env" where
  "callable_pops = \<lparr>invoke = (\<lambda>p t. (snd (mqPop t), False)), notify = (\<lambda>r t. (t, False))\<rparr>"

definition callable_pushes :: "'v promise \<Rightarrow> 'v env" where
  "callable_pushes g =
     \<lparr>invoke = (\<lambda>p t. (snd (mqPush g None t), False)), notify = (\<lambda>r t. (t, False))\<rparr>"

section \<open>Evaluation and auxiliary facts\<close>

lemmas mq_eval = mqPush_def mqPop_def mqRemove_def mqStart_def mqEnd_def Worker_def
  Worker_resume_def new_Queue_def opt_Priority_def opt_ProcessId_def priority_rejected_def
  priority_is_HIGH_def or_null_def truthy_num_def strict_eq_num_def HIGH_def LOW_def splice_def
  getCurrentProcessId_def getQueueLength_def Let_def

text \<open>Away from \<open>NaN\<close>, strict equality is equality.\<close>

lemma strict_eq_iff: "a \<noteq> NumId NaN \<Longrightarrow> strict_eq a b = (a = b)"
  by (cases a; cases b) (auto simp: strict_eq_num_def)

lemma strict_eq_null_iff: "c \<noteq> Some (NumId NaN) \<Longrightarrow> strict_eq_null c i = (c = Some i)"
  by (cases c) (auto simp: strict_eq_iff)

lemma findIndex_none: "(\<forall>x\<in>set xs. \<not> P x) \<Longrightarrow> findIndex P xs = -1"
  by (induction xs) (auto simp: Let_def)

lemma findIndex_range: "-1 \<le> findIndex P xs \<and> findIndex P xs < int (length xs)"
  by (induction xs) (auto simp: Let_def)

lemma splice_last: "xs \<noteq> [] \<Longrightarrow> splice (-1) (Suc 0) xs = ([last xs], butlast xs)"
  by (cases xs rule: rev_cases) (auto simp: splice_def Let_def)

text \<open>The two ways a call of \<open>#Worker\<close> goes.\<close>

lemma Worker_noop:
  "\<not> isProcessStartFlag s \<or> Queue s = [] \<or> ProcessState s = UNDER_EXECUTION \<Longrightarrow> Worker s = s"
  by (auto simp: Worker_def)

lemma Worker_fires:
  "isProcessStartFlag s \<Longrightarrow> Queue s \<noteq> [] \<Longrightarrow> ProcessState s \<noteq> UNDER_EXECUTION \<Longrightarrow>
   Worker s = s\<lparr>ProcessState := UNDER_EXECUTION,
                CurrentProcessId := or_null (Process.ProcessId (hd (Queue s))),
                Queue := tl (Queue s),
                awaiting := awaiting s @ [hd (Queue s)]\<rparr>"
  by (cases "Queue s") (simp_all add: Worker_def)

text \<open>The same two ways for \<open>#Worker\<close> with callables that act on the queue.\<close>

lemma Worker_env_noop:
  "\<not> isProcessStartFlag s \<or> Queue s = [] \<or> ProcessState s = UNDER_EXECUTION \<Longrightarrow> Worker_env E s = s"
  by (auto simp: Worker_env_def)

lemma Worker_env_fires:
  "isProcessStartFlag s \<Longrightarrow> Queue s \<noteq> [] \<Longrightarrow> ProcessState s \<noteq> UNDER_EXECUTION \<Longrightarrow>
   Worker_env E s =
     (case invoke E (hd (Queue s))
             (s\<lparr>ProcessState := UNDER_EXECUTION,
                CurrentProcessId := or_null (Process.ProcessId (hd (Queue s))),
                Queue := tl (Queue s)\<rparr>) of
        (s1, threw) \<Rightarrow> if threw then s1 else s1\<lparr>awaiting := awaiting s1 @ [hd (Queue s)]\<rparr>)"
  by (cases "Queue s") (simp_all add: Worker_env_def split: prod.splits)







lemmas env_eval = mqPush_env_def mqStart_env_def Worker_env_def Worker_resume_env_def
  no_calls_def listener_throws_def listener_pops_def callable_pops_def callable_pushes_def

section \<open>remove\<close>

text \<open>
  What \<open>mqRemove\<close> does with an id that no queued record carries: \<open>findIndex\<close> answers
  \<open>-1\<close>, and \<open>splice(-1, 1)\<close> cuts off the last record of the buffer.
\<close>

lemma mqRemove_absent:
  assumes "Queue s \<noteq> []"
    and "\<not> strict_eq_null (CurrentProcessId s) i"
    and "\<forall>p\<in>set (Queue s). \<not> strict_eq (Process.ProcessId p) i"
  shows "mqRemove i s =
    (Inr \<lparr>PushPopReturnType.ProcessId = Process.ProcessId (last (Queue s)),
          QueueLength = length (Queue s) - 1\<rparr>, s\<lparr>Queue := butlast (Queue s)\<rparr>)"
  using assms by (simp add: mqRemove_def findIndex_none splice_last Let_def)

lemma mqRemove_never_NotFoundError: "fst (mqRemove i s) \<noteq> Inl NotFoundError"
  by (auto simp: mqRemove_def Let_def split: prod.splits list.splits)

text \<open>
  C1. The claim: on a non-empty buffer, removing an id that is neither the current one nor
  that of any queued record fails with NotFoundError. The code does not fail there: with
  A and B queued and nothing running, \<open>mqRemove('Z')\<close> returns normally, reports B as
  removed with one record left, and B, the last record, is gone from the buffer.
\<close>

theorem C1_mqRemove_absent_id_removes_last:
  "mqRemove (StrId ''Z'')
     (mqPush_all
        [(Fulfils (1::nat), Some \<lparr>Priority = None, ProcessId = Some (StrId ''A'')\<rparr>),
         (Fulfils 2, Some \<lparr>Priority = None, ProcessId = Some (StrId ''B'')\<rparr>)] new_Queue)
   = (Inr \<lparr>PushPopReturnType.ProcessId = StrId ''B'', QueueLength = 1\<rparr>,
      \<lparr>Queue = [\<lparr>CallableFunction = Fulfils 1, Process.ProcessId = StrId ''A''\<rparr>],
       isProcessStartFlag = False, ProcessState = IDLE, CurrentProcessId = None,
       awaiting = [], emitted = []\<rparr>)"
  by (simp add: mq_eval)

section \<open>push\<close>

text \<open>
  A priority that is truthy and neither 0 nor 1 is refused, before anything is stored.
\<close>

lemma mqPush_invalid_priority:
  assumes "p \<noteq> Fin 0" and "p \<noteq> Fin 1" and "p \<noteq> NaN"
  shows "mqPush f (Some \<lparr>Priority = Some p, ProcessId = i\<rparr>) s = (Inl ValidationError, s)"
  using assms
  by (simp add: mqPush_def priority_rejected_def opt_Priority_def truthy_num_def strict_eq_num_def)

text \<open>
  C3. The claim: a push whose priority is defined and neither HIGH(1) nor LOW(0), NaN
  included, fails with ValidationError and leaves the buffer as it was. The guard of the
  \<open>throw\<close> starts with the truthiness of the priority, and \<open>NaN\<close> is falsy: on a new
  queue, a push with priority \<open>NaN\<close> returns normally with id 1 and length 1, and the
  record is in the buffer.
\<close>

theorem C3_mqPush_NaN_priority_accepted:
  "mqPush (Fulfils (0::nat)) (Some \<lparr>Priority = Some NaN, ProcessId = None\<rparr>) new_Queue
   = (Inr \<lparr>PushPopReturnType.ProcessId = NumId (Fin 1), QueueLength = 1\<rparr>,
      \<lparr>Queue = [\<lparr>CallableFunction = Fulfils 0, Process.ProcessId = NumId (Fin 1)\<rparr>],
       isProcessStartFlag = False, ProcessState = IDLE, CurrentProcessId = None,
       awaiting = [], emitted = []\<rparr>)"
  by (simp add: mq_eval)

text \<open>
  C4, as stated: the length a successful push returns is one more than the pending count
  before the push, also when the queue is started and the worker idle. It is not: on a
  started, idle, empty queue the push stores the record, the call of \<open>#Worker\<close> inside
  the push takes it out again, and the push returns length 0, where 0 + 1 is claimed.
\<close>

theorem C4_counterexample_started_idle:
  "fst (mqPush (Fulfils (0::nat)) None (mqStart new_Queue))
     = Inr \<lparr>PushPopReturnType.ProcessId = NumId (Fin 1), QueueLength = 0\<rparr>
   \<and> QueueLength \<lparr>PushPopReturnType.ProcessId = NumId (Fin 1), QueueLength = 0\<rparr>
       \<noteq> length (Queue (mqStart (new_Queue :: nat Queue_state))) + 1"
  by (simp add: mq_eval)

text \<open>
  C4, amended. The length a successful push returns is the pending count when the push
  returns (what \<open>getQueueLength\<close> answers right after it). That is one more than the
  count before the push when the queue is not started or a process is under execution.
  When the queue is started and the worker idle, the push hands the front record to the
  worker and the worker calls its callable before the push returns: the length returned
  is then the count that callable's own calls of the queue leave, which is the count
  before the push when it makes none.
\<close>

theorem C4_mqPush_env_returned_length:
  assumes "fst (mqPush_env E f opts s) = Inr r"
  shows "QueueLength r = getQueueLength (snd (mqPush_env E f opts s))
       \<and> (\<not> isProcessStartFlag s \<or> ProcessState s = UNDER_EXECUTION \<longrightarrow>
            QueueLength r = length (Queue s) + 1)
       \<and> (isProcessStartFlag s \<and> ProcessState s \<noteq> UNDER_EXECUTION \<longrightarrow>
            (let pushed = \<lparr>CallableFunction = f, Process.ProcessId = PushPopReturnType.ProcessId r\<rparr>;
                 inserted = (if priority_is_HIGH opts then pushed # Queue s else Queue s @ [pushed]);
                 handed = s\<lparr>ProcessState := UNDER_EXECUTION,
                            CurrentProcessId := or_null (Process.ProcessId (hd inserted)),
                            Queue := tl inserted\<rparr>
             in QueueLength r = length (Queue (fst (invoke E (hd inserted) handed)))
              \<and> (Queue (fst (invoke E (hd inserted) handed)) = Queue handed \<longrightarrow>
                   QueueLength r = length (Queue s))))"
proof (cases "isProcessStartFlag s \<and> ProcessState s \<noteq> UNDER_EXECUTION")
  case True
  with assms show ?thesis
    by (auto simp: mqPush_env_def Worker_env_fires Let_def getQueueLength_def
          split: if_splits prod.splits)
next
  case False
  with assms show ?thesis
    by (auto simp: mqPush_env_def Worker_env_noop Let_def getQueueLength_def split: if_splits)
qed

theorem C4_mqPush_env_returned_length_witness:
  "fst (mqPush_env (callable_pushes (Fulfils 2)) (Fulfils (1::nat)) None
          (mqStart_env (callable_pushes (Fulfils 2)) new_Queue))
     = Inr \<lparr>PushPopReturnType.ProcessId = NumId (Fin 1), QueueLength = 1\<rparr>
 \<and> getQueueLength (snd (mqPush_env (callable_pushes (Fulfils 2)) (Fulfils (1::nat)) None
          (mqStart_env (callable_pushes (Fulfils 2)) new_Queue))) = 1
 \<and> fst (mqPush_env no_calls (Fulfils (1::nat)) None (mqStart_env no_calls new_Queue))
     = Inr \<lparr>PushPopReturnType.ProcessId = NumId (Fin 1), QueueLength = 0\<rparr>
 \<and> getQueueLength (snd (mqPush_env no_calls (Fulfils (1::nat)) None
          (mqStart_env no_calls new_Queue))) = 0
 \<and> fst (mqPush_env no_calls (Fulfils (1::nat)) None new_Queue)
     = Inr \<lparr>PushPopReturnType.ProcessId = NumId (Fin 1), QueueLength = 1\<rparr>
 \<and> getQueueLength (snd (mqPush_env no_calls (Fulfils (1::nat)) None new_Queue)) = 1"
proof -
  have a: "fst (mqPush_env (callable_pushes (Fulfils 2)) (Fulfils (1::nat)) None
          (mqStart_env (callable_pushes (Fulfils 2)) new_Queue))
     = Inr \<lparr>PushPopReturnType.ProcessId = NumId (Fin 1), QueueLength = 1\<rparr>"
    by (simp add: env_eval mq_eval)
  have b: "fst (mqPush_env no_calls (Fulfils (1::nat)) None (mqStart_env no_calls new_Queue))
     = Inr \<lparr>PushPopReturnType.ProcessId = NumId (Fin 1), QueueLength = 0\<rparr>"
    by (simp add: env_eval mq_eval)
  have c: "fst (mqPush_env no_calls (Fulfils (1::nat)) None new_Queue)
     = Inr \<lparr>PushPopReturnType.ProcessId = NumId (Fin 1), QueueLength = 1\<rparr>"
    by (simp add: env_eval mq_eval)
  from C4_mqPush_env_returned_length [OF a] C4_mqPush_env_returned_length [OF b]
    C4_mqPush_env_returned_length [OF c] a b c
  show ?thesis by simp
qed

text \<open>
  C5. A successful push without an id gets the number (length of the buffer before the
  push) + 1 as its id, and the record stored under that id is either pending or already
  handed to the worker. The id comes from the length at the time of the call: on a new
  queue two pushes get 1 and 2, a pop takes the record with id 2 away, and the next push
  gets 2 again.
\<close>

theorem C5_mqPush_generated_id:
  "(opt_ProcessId opts = None \<and> fst (mqPush f opts (s :: 'v Queue_state)) = Inr r \<longrightarrow>
      PushPopReturnType.ProcessId r = NumId (Fin (of_nat (length (Queue s) + 1)))
    \<and> \<lparr>CallableFunction = f, Process.ProcessId = NumId (Fin (of_nat (length (Queue s) + 1)))\<rparr>
        \<in> set (Queue (snd (mqPush f opts s))) \<union> set (awaiting (snd (mqPush f opts s))))
 \<and> (let s1 = snd (mqPush f1 None (new_Queue :: 'v Queue_state));
          s2 = snd (mqPush f2 None s1);
          s3 = snd (mqPop s2)
      in fst (mqPush f1 None (new_Queue :: 'v Queue_state))
           = Inr \<lparr>PushPopReturnType.ProcessId = NumId (Fin 1), QueueLength = 1\<rparr>
       \<and> fst (mqPush f2 None s1) = Inr \<lparr>PushPopReturnType.ProcessId = NumId (Fin 2), QueueLength = 2\<rparr>
       \<and> fst (mqPop s2) = Inr \<lparr>PushPopReturnType.ProcessId = NumId (Fin 2), QueueLength = 1\<rparr>
       \<and> fst (mqPush f3 None s3) = Inr \<lparr>PushPopReturnType.ProcessId = NumId (Fin 2), QueueLength = 2\<rparr>)"
proof (intro conjI impI)
  assume a: "opt_ProcessId opts = None \<and> fst (mqPush f opts s) = Inr r"
  then show "PushPopReturnType.ProcessId r = NumId (Fin (of_nat (length (Queue s) + 1)))"
    by (auto simp: mqPush_def Let_def split: if_splits)
  show "\<lparr>CallableFunction = f, Process.ProcessId = NumId (Fin (of_nat (length (Queue s) + 1)))\<rparr>
        \<in> set (Queue (snd (mqPush f opts s))) \<union> set (awaiting (snd (mqPush f opts s)))"
  proof (cases "isProcessStartFlag s \<and> ProcessState s \<noteq> UNDER_EXECUTION")
    case True
    with a show ?thesis
      by (cases "Queue s") (auto simp: mqPush_def Worker_fires Let_def split: if_splits)
  next
    case False
    with a show ?thesis
      by (auto simp: mqPush_def Worker_noop Let_def split: if_splits)
  qed
next
  show "let s1 = snd (mqPush f1 None (new_Queue :: 'v Queue_state));
          s2 = snd (mqPush f2 None s1);
          s3 = snd (mqPop s2)
      in fst (mqPush f1 None (new_Queue :: 'v Queue_state))
           = Inr \<lparr>PushPopReturnType.ProcessId = NumId (Fin 1), QueueLength = 1\<rparr>
       \<and> fst (mqPush f2 None s1) = Inr \<lparr>PushPopReturnType.ProcessId = NumId (Fin 2), QueueLength = 2\<rparr>
       \<and> fst (mqPop s2) = Inr \<lparr>PushPopReturnType.ProcessId = NumId (Fin 2), QueueLength = 1\<rparr>
       \<and> fst (mqPush f3 None s3) = Inr \<lparr>PushPopReturnType.ProcessId = NumId (Fin 2), QueueLength = 2\<rparr>"
    by (simp add: mq_eval)
qed

theorem C5_mqPush_generated_id_witness:
  "opt_ProcessId None = None
   \<and> fst (mqPush (Fulfils (7::nat)) None new_Queue)
       = Inr \<lparr>PushPopReturnType.ProcessId = NumId (Fin 1), QueueLength = 1\<rparr>
   \<and> PushPopReturnType.ProcessId \<lparr>PushPopReturnType.ProcessId = NumId (Fin 1), QueueLength = 1\<rparr>
       = NumId (Fin (of_nat (length (Queue (new_Queue :: nat Queue_state)) + 1)))"
proof -
  have h: "opt_ProcessId None = None
    \<and> fst (mqPush (Fulfils (7::nat)) None new_Queue)
       = Inr \<lparr>PushPopReturnType.ProcessId = NumId (Fin 1), QueueLength = 1\<rparr>"
    by (simp add: mq_eval)
  from C5_mqPush_generated_id [of None "Fulfils 7" new_Queue _ "Fulfils 7" "Fulfils 7" "Fulfils 7"] h
  show ?thesis by blast
qed



section \<open>pop\<close>

text \<open>
  C7. \<open>mqPop\<close> on an empty buffer fails with EmptyQueueError; on a non-empty buffer whose
  last record carries the current id it fails with ActiveTaskError; otherwise it takes
  the last record off the buffer (the worker takes the first) and returns its id with
  the length that is left. After pushing A, B, C with LOW priority, a pop returns C.
  The current id is never \<open>NaN\<close> in a queue built by the public methods (\<open>#Worker\<close>
  stores \<open>null\<close> for a falsy id); elsewhere the guard's \<open>===\<close> is plain equality.
\<close>

theorem C7_mqPop:
  "(Queue (s :: 'v Queue_state) = [] \<longrightarrow> mqPop s = (Inl EmptyQueueError, s))
 \<and> (Queue s \<noteq> [] \<and> CurrentProcessId s \<noteq> Some (NumId NaN)
      \<and> CurrentProcessId s = Some (Process.ProcessId (last (Queue s)))
      \<longrightarrow> mqPop s = (Inl ActiveTaskError, s))
 \<and> (Queue s \<noteq> [] \<and> CurrentProcessId s \<noteq> Some (NumId NaN)
      \<and> CurrentProcessId s \<noteq> Some (Process.ProcessId (last (Queue s)))
      \<longrightarrow> mqPop s = (Inr \<lparr>PushPopReturnType.ProcessId = Process.ProcessId (last (Queue s)),
                             QueueLength = length (Queue s) - 1\<rparr>,
                       s\<lparr>Queue := butlast (Queue s)\<rparr>))
 \<and> fst (mqPop (mqPush_all
        [(fA, Some \<lparr>Priority = Some LOW, ProcessId = Some (StrId ''A'')\<rparr>),
         (fB, Some \<lparr>Priority = Some LOW, ProcessId = Some (StrId ''B'')\<rparr>),
         (fC, Some \<lparr>Priority = Some LOW, ProcessId = Some (StrId ''C'')\<rparr>)]
        (new_Queue :: 'v Queue_state)))
     = Inr \<lparr>PushPopReturnType.ProcessId = StrId ''C'', QueueLength = 2\<rparr>"
proof (intro conjI impI)
  show "fst (mqPop (mqPush_all
        [(fA, Some \<lparr>Priority = Some LOW, ProcessId = Some (StrId ''A'')\<rparr>),
         (fB, Some \<lparr>Priority = Some LOW, ProcessId = Some (StrId ''B'')\<rparr>),
         (fC, Some \<lparr>Priority = Some LOW, ProcessId = Some (StrId ''C'')\<rparr>)]
        (new_Queue :: 'v Queue_state)))
     = Inr \<lparr>PushPopReturnType.ProcessId = StrId ''C'', QueueLength = 2\<rparr>"
    by (simp add: mq_eval)
next
  assume "Queue s = []"
  then show "mqPop s = (Inl EmptyQueueError, s)"
    by (simp add: mqPop_def)
next
  assume a: "Queue s \<noteq> [] \<and> CurrentProcessId s \<noteq> Some (NumId NaN)
      \<and> CurrentProcessId s = Some (Process.ProcessId (last (Queue s)))"
  then have "strict_eq_null (CurrentProcessId s) (Process.ProcessId (last (Queue s)))"
    using strict_eq_null_iff [of "CurrentProcessId s"] by blast
  with a show "mqPop s = (Inl ActiveTaskError, s)"
    by (simp add: mqPop_def)
next
  assume a: "Queue s \<noteq> [] \<and> CurrentProcessId s \<noteq> Some (NumId NaN)
      \<and> CurrentProcessId s \<noteq> Some (Process.ProcessId (last (Queue s)))"
  then have "\<not> strict_eq_null (CurrentProcessId s) (Process.ProcessId (last (Queue s)))"
    using strict_eq_null_iff [of "CurrentProcessId s"] by blast
  with a show "mqPop s = (Inr \<lparr>PushPopReturnType.ProcessId = Process.ProcessId (last (Queue s)),
                             QueueLength = length (Queue s) - 1\<rparr>,
                       s\<lparr>Queue := butlast (Queue s)\<rparr>)"
    by (simp add: mqPop_def Let_def)
qed

theorem C7_mqPop_witness:
  "mqPop (new_Queue :: nat Queue_state) = (Inl EmptyQueueError, new_Queue)
 \<and> mqPop \<lparr>Queue = [\<lparr>CallableFunction = Fulfils (1::nat), Process.ProcessId = StrId ''A''\<rparr>],
           isProcessStartFlag = True, ProcessState = UNDER_EXECUTION,
           CurrentProcessId = Some (StrId ''A''), awaiting = [], emitted = []\<rparr>
     = (Inl ActiveTaskError,
        \<lparr>Queue = [\<lparr>CallableFunction = Fulfils (1::nat), Process.ProcessId = StrId ''A''\<rparr>],
           isProcessStartFlag = True, ProcessState = UNDER_EXECUTION,
           CurrentProcessId = Some (StrId ''A''), awaiting = [], emitted = []\<rparr>)
 \<and> mqPop \<lparr>Queue = [\<lparr>CallableFunction = Fulfils (1::nat), Process.ProcessId = StrId ''A''\<rparr>,
                    \<lparr>CallableFunction = Fulfils (2::nat), Process.ProcessId = StrId ''B''\<rparr>],
           isProcessStartFlag = False, ProcessState = IDLE,
           CurrentProcessId = None, awaiting = [], emitted = []\<rparr>
     = (Inr \<lparr>PushPopReturnType.ProcessId = StrId ''B'', QueueLength = 1\<rparr>,
        \<lparr>Queue = [\<lparr>CallableFunction = Fulfils (1::nat), Process.ProcessId = StrId ''A''\<rparr>],
           isProcessStartFlag = False, ProcessState = IDLE,
           CurrentProcessId = None, awaiting = [], emitted = []\<rparr>)"
  using
    C7_mqPop [of "new_Queue :: nat Queue_state" "Fulfils 1" "Fulfils 2" "Fulfils 3"]
    C7_mqPop [of "\<lparr>Queue = [\<lparr>CallableFunction = Fulfils (1::nat), Process.ProcessId = StrId ''A''\<rparr>],
           isProcessStartFlag = True, ProcessState = UNDER_EXECUTION,
           CurrentProcessId = Some (StrId ''A''), awaiting = [], emitted = []\<rparr>"
           "Fulfils 1" "Fulfils 2" "Fulfils 3"]
    C7_mqPop [of "\<lparr>Queue = [\<lparr>CallableFunction = Fulfils (1::nat), Process.ProcessId = StrId ''A''\<rparr>,
                    \<lparr>CallableFunction = Fulfils (2::nat), Process.ProcessId = StrId ''B''\<rparr>],
           isProcessStartFlag = False, ProcessState = IDLE,
           CurrentProcessId = None, awaiting = [], emitted = []\<rparr>"
           "Fulfils 1" "Fulfils 2" "Fulfils 3"]
  by (simp add: new_Queue_def)

section \<open>The worker\<close>

lemma or_null_not_NaN: "or_null x \<noteq> Some (NumId NaN)"
  by (cases x) (auto simp: or_null_def truthy_num_def)

subsection \<open>One invocation at a time\<close>

lemma qinv_Worker: "queue_inv s \<Longrightarrow> queue_inv (Worker s)"
  by (cases "isProcessStartFlag s \<and> Queue s \<noteq> [] \<and> ProcessState s \<noteq> UNDER_EXECUTION")
     (auto simp: Worker_fires Worker_noop queue_inv_def)

lemma qinv_Queue_update: "queue_inv (s\<lparr>Queue := q\<rparr>) = queue_inv s"
  by (simp add: queue_inv_def)

lemma qinv_mqPush: "queue_inv s \<Longrightarrow> queue_inv (snd (mqPush f opts s))"
  by (simp add: mqPush_def Let_def qinv_Worker qinv_Queue_update)

lemma qinv_mqPop: "queue_inv s \<Longrightarrow> queue_inv (snd (mqPop s))"
  by (simp add: mqPop_def Let_def qinv_Queue_update)

lemma qinv_mqRemove: "queue_inv s \<Longrightarrow> queue_inv (snd (mqRemove i s))"
  by (simp add: mqRemove_def Let_def qinv_Queue_update split: prod.splits list.splits)

lemma qinv_mqStart: "queue_inv s \<Longrightarrow> queue_inv (mqStart s)"
  unfolding mqStart_def by (rule qinv_Worker) (simp add: queue_inv_def)

lemma qinv_mqEnd: "queue_inv s \<Longrightarrow> queue_inv (mqEnd s)"
  by (simp add: mqEnd_def queue_inv_def)

lemma qinv_Worker_resume:
  assumes "queue_inv s" and "ele \<in> set (awaiting s)"
  shows "queue_inv (Worker_resume ele s)"
proof -
  from assms have aw: "awaiting s = [ele]"
    by (cases "awaiting s") (auto simp: queue_inv_def)
  show ?thesis
  proof (cases "CallableFunction ele")
    case (Fulfils res)
    have "queue_inv (s\<lparr>awaiting := remove1 ele (awaiting s),
                 emitted := emitted s @ [\<lparr>value = res, processId = Process.ProcessId ele,
                                          queueLength = length (Queue s)\<rparr>],
                 ProcessState := IDLE\<rparr>)"
      using assms aw by (simp add: queue_inv_def)
    then show ?thesis
      using Fulfils by (simp add: Worker_resume_def Let_def qinv_Worker)
  next
    case (Rejects e)
    then show ?thesis using assms aw by (simp add: Worker_resume_def queue_inv_def)
  next
    case Never
    then show ?thesis using assms by (simp add: Worker_resume_def)
  qed
qed

lemma reachable_queue_inv: "reachable s \<Longrightarrow> queue_inv s"
proof (induction rule: reachable.induct)
  case r_new
  show ?case by (simp add: queue_inv_def new_Queue_def)
qed (simp_all add: qinv_mqPush qinv_mqPop qinv_mqRemove qinv_mqStart qinv_mqEnd qinv_Worker_resume)

text \<open>The current id of a queue built by the public methods is never \<open>NaN\<close>.\<close>

lemma Worker_current_not_NaN:
  "CurrentProcessId s \<noteq> Some (NumId NaN) \<Longrightarrow> CurrentProcessId (Worker s) \<noteq> Some (NumId NaN)"
  by (cases "isProcessStartFlag s \<and> Queue s \<noteq> [] \<and> ProcessState s \<noteq> UNDER_EXECUTION")
     (auto simp: Worker_fires Worker_noop or_null_not_NaN)

lemma reachable_current_not_NaN: "reachable s \<Longrightarrow> CurrentProcessId s \<noteq> Some (NumId NaN)"
proof (induction rule: reachable.induct)
  case r_new
  show ?case by (simp add: new_Queue_def)
next
  case (r_push s f opts)
  then show ?case by (simp add: mqPush_def Let_def Worker_current_not_NaN)
next
  case (r_pop s)
  then show ?case by (simp add: mqPop_def Let_def)
next
  case (r_remove s i)
  then show ?case by (simp add: mqRemove_def Let_def split: prod.splits list.splits)
next
  case (r_start s)
  then show ?case by (simp add: mqStart_def Worker_current_not_NaN)
next
  case (r_end s)
  then show ?case by (simp add: mqEnd_def)
next
  case (r_resume s ele)
  then show ?case
    by (cases "CallableFunction ele") (simp_all add: Worker_resume_def Let_def Worker_current_not_NaN)
qed

text \<open>
  C9. In every reachable state at most one invocation of \<open>#Worker\<close> is suspended at its
  \<open>await\<close>, and only in state \<open>UNDER_EXECUTION\<close>. In that state a call of \<open>#Worker\<close>
  changes nothing, and a push (the one public method that both stores and calls
  \<open>#Worker\<close>) leaves the suspended invocation and the state as they are; when its
  priority is accepted it makes the buffer one longer.
\<close>

theorem C9_at_most_one_executing:
  assumes "reachable s"
  shows "length (awaiting s) \<le> 1
       \<and> (awaiting s \<noteq> [] \<longrightarrow> ProcessState s = UNDER_EXECUTION)
       \<and> (ProcessState s = UNDER_EXECUTION \<longrightarrow>
            Worker s = s
          \<and> (\<forall>f opts. awaiting (snd (mqPush f opts s)) = awaiting s
                \<and> ProcessState (snd (mqPush f opts s)) = UNDER_EXECUTION
                \<and> (\<not> priority_rejected opts \<longrightarrow>
                     length (Queue (snd (mqPush f opts s))) = length (Queue s) + 1)))"
proof (intro conjI impI allI)
  from assms have i: "queue_inv s" by (rule reachable_queue_inv)
  then show "length (awaiting s) \<le> 1" by (simp add: queue_inv_def)
  { assume "awaiting s \<noteq> []"
    with i show "ProcessState s = UNDER_EXECUTION" by (simp add: queue_inv_def) }
  { assume e: "ProcessState s = UNDER_EXECUTION"
    then show "Worker s = s" by (simp add: Worker_noop)
    fix f opts
    from e show "awaiting (snd (mqPush f opts s)) = awaiting s"
      by (simp add: mqPush_def Let_def Worker_noop)
    from e show "ProcessState (snd (mqPush f opts s)) = UNDER_EXECUTION"
      by (simp add: mqPush_def Let_def Worker_noop)
    assume "\<not> priority_rejected opts"
    with e show "length (Queue (snd (mqPush f opts s))) = length (Queue s) + 1"
      by (simp add: mqPush_def Let_def Worker_noop) }
qed

theorem C9_at_most_one_executing_witness:
  "reachable (mqStart (snd (mqPush (Fulfils (1::nat)) None new_Queue)))
 \<and> length (awaiting (mqStart (snd (mqPush (Fulfils (1::nat)) None new_Queue)))) = 1
 \<and> ProcessState (mqStart (snd (mqPush (Fulfils (1::nat)) None new_Queue))) = UNDER_EXECUTION
 \<and> awaiting (snd (mqPush (Fulfils 2) None (mqStart (snd (mqPush (Fulfils (1::nat)) None new_Queue)))))
     = awaiting (mqStart (snd (mqPush (Fulfils (1::nat)) None new_Queue)))
 \<and> length (Queue (snd (mqPush (Fulfils 2) None (mqStart (snd (mqPush (Fulfils (1::nat)) None new_Queue))))))
     = length (Queue (mqStart (snd (mqPush (Fulfils (1::nat)) None new_Queue)))) + 1"
proof -
  have r: "reachable (mqStart (snd (mqPush (Fulfils (1::nat)) None new_Queue)))"
    by (intro reachable.intros)
  have e: "ProcessState (mqStart (snd (mqPush (Fulfils (1::nat)) None new_Queue))) = UNDER_EXECUTION"
    and l: "length (awaiting (mqStart (snd (mqPush (Fulfils (1::nat)) None new_Queue)))) = 1"
    and p: "\<not> priority_rejected None"
    by (simp_all add: mq_eval)
  from C9_at_most_one_executing [OF r] r e l p show ?thesis by blast
qed

subsection \<open>The current id\<close>

text \<open>
  C2. The claim: in every reachable state the current id is set exactly when the state
  is \<open>UNDER_EXECUTION\<close>, and it is none once a completion is published and the worker
  is idle again. \<open>#Worker\<close> never assigns \<open>CurrentProcessId\<close> after the \<open>await\<close>: push a
  process with id 'a' on a new queue, start the queue, let the promise be fulfilled. The
  state reached has the completion emitted and is \<open>IDLE\<close>, and the current id is
  still 'a'.
\<close>

theorem C2_current_id_kept_after_completion:
  "reachable (Worker_resume \<lparr>CallableFunction = Fulfils (0::nat), Process.ProcessId = StrId ''a''\<rparr>
     (mqStart (snd (mqPush (Fulfils 0) (Some \<lparr>Priority = None, ProcessId = Some (StrId ''a'')\<rparr>) new_Queue))))
 \<and> Worker_resume \<lparr>CallableFunction = Fulfils (0::nat), Process.ProcessId = StrId ''a''\<rparr>
     (mqStart (snd (mqPush (Fulfils 0) (Some \<lparr>Priority = None, ProcessId = Some (StrId ''a'')\<rparr>) new_Queue)))
   = \<lparr>Queue = [], isProcessStartFlag = True, ProcessState = IDLE,
      CurrentProcessId = Some (StrId ''a''), awaiting = [],
      emitted = [\<lparr>value = 0, processId = StrId ''a'', queueLength = 0\<rparr>]\<rparr>"
proof
  have "\<lparr>CallableFunction = Fulfils (0::nat), Process.ProcessId = StrId ''a''\<rparr>
     \<in> set (awaiting (mqStart (snd (mqPush (Fulfils 0)
          (Some \<lparr>Priority = None, ProcessId = Some (StrId ''a'')\<rparr>) new_Queue))))"
    by (simp add: mq_eval)
  then show "reachable (Worker_resume \<lparr>CallableFunction = Fulfils (0::nat), Process.ProcessId = StrId ''a''\<rparr>
     (mqStart (snd (mqPush (Fulfils 0) (Some \<lparr>Priority = None, ProcessId = Some (StrId ''a'')\<rparr>) new_Queue))))"
    by (intro reachable.intros)
  show "Worker_resume \<lparr>CallableFunction = Fulfils (0::nat), Process.ProcessId = StrId ''a''\<rparr>
     (mqStart (snd (mqPush (Fulfils 0) (Some \<lparr>Priority = None, ProcessId = Some (StrId ''a'')\<rparr>) new_Queue)))
   = \<lparr>Queue = [], isProcessStartFlag = True, ProcessState = IDLE,
      CurrentProcessId = Some (StrId ''a''), awaiting = [],
      emitted = [\<lparr>value = 0, processId = StrId ''a'', queueLength = 0\<rparr>]\<rparr>"
    by (simp add: mq_eval)
qed

text \<open>
  While a process is under execution, calls of the public methods change neither the
  state, nor the current id, nor what is suspended.
\<close>

lemma calls_while_executing:
  assumes "calls s t" and "ProcessState s = UNDER_EXECUTION"
  shows "ProcessState t = UNDER_EXECUTION \<and> CurrentProcessId t = CurrentProcessId s
       \<and> awaiting t = awaiting s"
  using assms
proof (induction rule: calls.induct)
  case (c_none s)
  then show ?case by simp
next
  case (c_push s t f opts)
  then show ?case by (simp add: mqPush_def Let_def Worker_noop)
next
  case (c_pop s t)
  then show ?case by (simp add: mqPop_def Let_def)
next
  case (c_remove s t i)
  then show ?case by (simp add: mqRemove_def Let_def split: prod.splits list.splits)
next
  case (c_start s t)
  then show ?case by (simp add: mqStart_def Worker_noop)
next
  case (c_end s t)
  then show ?case by (simp add: mqEnd_def)
qed

text \<open>
  C10. The ids 0 and '' are falsy. When \<open>#Worker\<close> takes a record with a falsy id from
  the front of the buffer, it stores none as the current id, and whatever public methods
  are called while that record's callable is executing, \<open>getCurrentProcessId\<close> answers
  none, and neither \<open>mqPop\<close> nor \<open>mqRemove\<close> (of any id) fails with ActiveTaskError.
\<close>

theorem C10_falsy_id_not_tracked:
  "(\<not> truthy (NumId (Fin 0)) \<and> \<not> truthy (StrId []))
 \<and> (isProcessStartFlag s \<and> ProcessState s = IDLE \<and> Queue s = ele # rest
      \<and> \<not> truthy (Process.ProcessId ele) \<longrightarrow>
        awaiting (Worker s) = awaiting s @ [ele]
      \<and> (\<forall>t. calls (Worker s) t \<longrightarrow>
            ProcessState t = UNDER_EXECUTION
          \<and> awaiting t = awaiting s @ [ele]
          \<and> getCurrentProcessId t = None
          \<and> fst (mqPop t) \<noteq> Inl ActiveTaskError
          \<and> (\<forall>i. fst (mqRemove i t) \<noteq> Inl ActiveTaskError)))"
proof (intro conjI impI allI)
  show "\<not> truthy (NumId (Fin 0))" and "\<not> truthy (StrId [])"
    by (simp_all add: truthy_num_def)
next
  assume a: "isProcessStartFlag s \<and> ProcessState s = IDLE \<and> Queue s = ele # rest
      \<and> \<not> truthy (Process.ProcessId ele)"
  then have w: "ProcessState (Worker s) = UNDER_EXECUTION" "CurrentProcessId (Worker s) = None"
      "awaiting (Worker s) = awaiting s @ [ele]"
    by (simp_all add: Worker_fires or_null_def)
  show "awaiting (Worker s) = awaiting s @ [ele]" by (rule w(3))
  fix t assume "calls (Worker s) t"
  from calls_while_executing [OF this w(1)] w
  have t: "ProcessState t = UNDER_EXECUTION" "CurrentProcessId t = None"
      "awaiting t = awaiting s @ [ele]"
    by simp_all
  show "ProcessState t = UNDER_EXECUTION" by (rule t(1))
  show "awaiting t = awaiting s @ [ele]" by (rule t(3))
  show "getCurrentProcessId t = None" by (simp add: getCurrentProcessId_def t(2))
  show "fst (mqPop t) \<noteq> Inl ActiveTaskError"
    by (simp add: mqPop_def Let_def t(2))
  fix i
  show "fst (mqRemove i t) \<noteq> Inl ActiveTaskError"
    by (simp add: mqRemove_def Let_def t(2) split: prod.splits list.splits)
qed

theorem C10_falsy_id_not_tracked_witness:
  "getCurrentProcessId (mqStart
      \<lparr>Queue = [\<lparr>CallableFunction = Fulfils (1::nat), Process.ProcessId = NumId (Fin 0)\<rparr>,
                \<lparr>CallableFunction = Fulfils 2, Process.ProcessId = NumId (Fin 0)\<rparr>],
       isProcessStartFlag = False, ProcessState = IDLE, CurrentProcessId = None,
       awaiting = [], emitted = []\<rparr>) = None
 \<and> awaiting (mqStart
      \<lparr>Queue = [\<lparr>CallableFunction = Fulfils (1::nat), Process.ProcessId = NumId (Fin 0)\<rparr>,
                \<lparr>CallableFunction = Fulfils 2, Process.ProcessId = NumId (Fin 0)\<rparr>],
       isProcessStartFlag = False, ProcessState = IDLE, CurrentProcessId = None,
       awaiting = [], emitted = []\<rparr>)
     = [\<lparr>CallableFunction = Fulfils 1, Process.ProcessId = NumId (Fin 0)\<rparr>]
 \<and> fst (mqRemove (NumId (Fin 0)) (mqStart
      \<lparr>Queue = [\<lparr>CallableFunction = Fulfils (1::nat), Process.ProcessId = NumId (Fin 0)\<rparr>,
                \<lparr>CallableFunction = Fulfils 2, Process.ProcessId = NumId (Fin 0)\<rparr>],
       isProcessStartFlag = False, ProcessState = IDLE, CurrentProcessId = None,
       awaiting = [], emitted = []\<rparr>)) \<noteq> Inl ActiveTaskError"
proof -
  let ?s = "\<lparr>Queue = [\<lparr>CallableFunction = Fulfils (1::nat), Process.ProcessId = NumId (Fin 0)\<rparr>,
                \<lparr>CallableFunction = Fulfils 2, Process.ProcessId = NumId (Fin 0)\<rparr>],
       isProcessStartFlag = True, ProcessState = IDLE, CurrentProcessId = None,
       awaiting = [], emitted = []\<rparr>"
  let ?ele = "\<lparr>CallableFunction = Fulfils (1::nat), Process.ProcessId = NumId (Fin 0)\<rparr>"
  let ?rest = "[\<lparr>CallableFunction = Fulfils (2::nat), Process.ProcessId = NumId (Fin 0)\<rparr>]"
  have h: "isProcessStartFlag ?s \<and> ProcessState ?s = IDLE \<and> Queue ?s = ?ele # ?rest
      \<and> \<not> truthy (Process.ProcessId ?ele)"
    by (simp add: truthy_num_def)
  have c: "calls (Worker ?s) (Worker ?s)"
    by (rule calls.c_none)
  note inst = C10_falsy_id_not_tracked [where s = ?s and ele = ?ele and rest = ?rest]
  from inst h c have "awaiting (Worker ?s) = awaiting ?s @ [?ele]
      \<and> getCurrentProcessId (Worker ?s) = None
      \<and> fst (mqRemove (NumId (Fin 0)) (Worker ?s)) \<noteq> Inl ActiveTaskError"
    by blast
  then show ?thesis by (simp add: mqStart_def)
qed

subsection \<open>Draining\<close>















section \<open>Priorities\<close>










end
